theory Spec2Isabelle
  imports Complex_Main
begin

section \<open>Data model\<close>

text \<open>
  The wallet service keeps two tables: wallets (one row per wallet, with an optimistic
  version column) and transactions (the append-only ledger, unique on \<open>transactionId\<close>).
  Primary keys are generated by the store; they are modelled as natural numbers drawn from
  a counter. Timestamps are readings of a logical clock. Strings are ASCII.
  Field names that occur in several classes carry a prefix (\<open>w_\<close> wallet, \<open>t_\<close>
  transaction, \<open>dto_\<close> request, \<open>r_\<close> response).
\<close>

type_synonym uuid = nat

type_synonym json = "(string \<times> string) list"

text \<open>
  Modelled from the spec: the enum \<open>TransactionType\<close>, whose file is not among the
  sources; the spec gives the kinds DEPOSIT and WITHDRAWAL, and the service tests for
  \<open>TransactionType.DEPOSIT\<close>.
\<close>

datatype TransactionType = DEPOSIT | WITHDRAWAL

record Wallet =
  w_id :: uuid
  balance :: rat
  w_currency :: string
  version :: nat
  w_createdAt :: nat
  updatedAt :: nat

record Transaction =
  t_id :: uuid
  transactionId :: string
  walletId :: uuid
  t_type :: TransactionType
  amount :: rat
  currency :: string
  convertedAmount :: rat
  metadata :: "json option"
  createdAt :: nat

record CreateTransactionDto =
  dto_transactionId :: string
  dto_walletId :: uuid
  dto_type :: TransactionType
  dto_amount :: rat
  dto_currency :: "string option"
  dto_metadata :: "json option"

record TransactionResponseDto =
  r_id :: uuid
  r_transactionId :: string
  r_walletId :: uuid
  r_type :: TransactionType
  r_amount :: rat
  r_currency :: string
  r_convertedAmount :: rat
  r_metadata :: "json option"
  r_createdAt :: nat

text \<open>
  Everything the service can throw. The two HTTP exceptions are named by their error
  code and carry the payload their constructors build; \<open>QueryFailedError\<close> is what the
  store raises when an insert violates a constraint; \<open>Error\<close> is a plain JavaScript
  error with its message.
\<close>

datatype error =
    WALLET_NOT_FOUND uuid
  | INSUFFICIENT_FUNDS rat rat rat
  | OptimisticLockVersionMismatchError
  | QueryFailedError string
  | Error string

definition WalletNotFoundException :: "uuid \<Rightarrow> error" where
  "WalletNotFoundException wid = WALLET_NOT_FOUND wid"

text \<open>The details are \<open>currentBalance\<close>, \<open>requestedAmount\<close> and \<open>shortfall\<close>, in this order.\<close>

definition InsufficientFundsException :: "rat \<Rightarrow> rat \<Rightarrow> error" where
  "InsufficientFundsException bal requested =
     INSUFFICIENT_FUNDS bal requested (requested - bal)"

record store =
  wallets :: "Wallet list"
  transactions :: "Transaction list"
  next_id :: nat
  clock :: nat

definition empty_store :: store where
  "empty_store = \<lparr>wallets = [], transactions = [], next_id = 0, clock = 0\<rparr>"

section \<open>Numbers\<close>

text \<open>
  A TypeScript number is a binary64 value. The numbers that travel between the request,
  the service and the \<open>decimal(20,2)\<close> columns are doubles nearest to a short decimal
  (a request amount, a rate, a two-decimal column value); such a number is modelled by
  that decimal, a rational, which is also the text the driver sends to the store. Inside
  \<open>convert\<close> the products are not short decimals, and there every operation is rounded
  to binary64 by \<open>fl64\<close>: to 53 significant bits, to nearest, a tie to the even
  significand. Magnitudes beyond the exponent range of binary64 (subnormals, Infinity)
  are not represented.
\<close>

function bit_length :: "int \<Rightarrow> int" where
  "bit_length n = (if n \<le> 0 then 0 else 1 + bit_length (n div 2))"
  by pat_completeness auto
termination
  by (relation "measure nat") auto

declare bit_length.simps [simp del]

definition pow2 :: "int \<Rightarrow> rat" where
  "pow2 e = (if 0 \<le> e then 2 ^ nat e else 1 / 2 ^ nat (- e))"

definition round_half_even :: "rat \<Rightarrow> int" where
  "round_half_even y =
     (let m = \<lfloor>y\<rfloor>; f = y - of_int m in
      if f < 1 / 2 then m else if 1 / 2 < f then m + 1 else if even m then m else m + 1)"

text \<open>The integer \<open>k\<close> with \<open>2 ^ k \<le> |x| < 2 ^ (k + 1)\<close>, for \<open>x\<close> other than 0.\<close>

definition binary_exponent :: "rat \<Rightarrow> int" where
  "binary_exponent x =
     (let k = bit_length \<bar>fst (quotient_of x)\<bar> - bit_length (snd (quotient_of x))
      in if pow2 k \<le> \<bar>x\<bar> then k else k - 1)"

definition fl64 :: "rat \<Rightarrow> rat" where
  "fl64 x =
     (if x = 0 then 0
      else let e = binary_exponent x - 52
           in of_int (round_half_even (x / pow2 e)) * pow2 e)"

section \<open>CurrencyService\<close>

definition exchangeRates :: "string \<Rightarrow> rat option" where
  "exchangeRates = map_of
     [(''EGP'', 1), (''USD'', 49), (''EUR'', 53), (''GBP'', 62), (''SAR'', 13),
      (''AED'', 133 / 10)]"

text \<open>\<open>String.prototype.toUpperCase\<close> on ASCII strings, the only ones modelled.\<close>

definition toUpperCase_char :: "char \<Rightarrow> char" where
  "toUpperCase_char c =
     (let n = (of_char c :: nat) in if 97 \<le> n \<and> n \<le> 122 then char_of (n - 32) else c)"

definition toUpperCase :: "string \<Rightarrow> string" where
  "toUpperCase = map toUpperCase_char"

text \<open>\<open>Math.round\<close>: the nearest integer, a tie going towards plus infinity.\<close>

definition Math_round :: "rat \<Rightarrow> int" where
  "Math_round x = \<lfloor>x + 1 / 2\<rfloor>"

text \<open>
  The guard \<open>!this.exchangeRates[c]\<close> is true for a missing key and for a rate of zero.
  The amount and the rates enter as the doubles nearest to them; the product, the
  quotient and the scaling by 100 are each rounded to binary64; \<open>Math.round\<close> is exact;
  the result is the double nearest to \<open>n / 100\<close>.
\<close>

definition convert :: "rat \<Rightarrow> string \<Rightarrow> string \<Rightarrow> error + rat" where
  "convert amt fromCurrency toCurrency =
     (let from_c = toUpperCase fromCurrency; to_c = toUpperCase toCurrency in
      case exchangeRates from_c of
        None \<Rightarrow> Inl (Error (''Unsupported currency: '' @ from_c))
      | Some rate_from \<Rightarrow>
          if rate_from = 0 then Inl (Error (''Unsupported currency: '' @ from_c))
          else
            (case exchangeRates to_c of
               None \<Rightarrow> Inl (Error (''Unsupported currency: '' @ to_c))
             | Some rate_to \<Rightarrow>
                 if rate_to = 0 then Inl (Error (''Unsupported currency: '' @ to_c))
                 else
                   (let amountInEGP = fl64 (fl64 amt * fl64 rate_from);
                        convertedAmount' = fl64 (amountInEGP / fl64 rate_to)
                    in Inr (of_int (Math_round (fl64 (convertedAmount' * 100))) / 100))))"

definition toEGP :: "rat \<Rightarrow> string \<Rightarrow> error + rat" where
  "toEGP amt fromCurrency = convert amt fromCurrency ''EGP''"

section \<open>The store\<close>

text \<open>
  The store (TypeORM on PostgreSQL) is not part of the repository; the entity classes
  declare its tables.
\<close>

text \<open>
  Modelled from the spec: what the store does with a value written to a column, for the
  column types the entity classes declare. A \<open>decimal(20,2)\<close> column rounds to two
  decimals, a tie away from zero, and rejects a value that then needs more than 18
  integer digits; a \<open>varchar(n)\<close> column rejects a string longer than \<open>n\<close>.
\<close>

definition decimal_20_2 :: "rat \<Rightarrow> error + rat" where
  "decimal_20_2 x =
     (let r = (if 0 \<le> x then of_int \<lfloor>x * 100 + 1 / 2\<rfloor> / 100
               else - (of_int \<lfloor>- x * 100 + 1 / 2\<rfloor> / 100))
      in if 10 ^ 18 \<le> \<bar>r\<bar> then Inl (QueryFailedError ''numeric field overflow'')
         else Inr r)"

definition varchar :: "nat \<Rightarrow> string \<Rightarrow> error + string" where
  "varchar n str =
     (if n < length str
      then Inl (QueryFailedError ''value too long for type character varying'')
      else Inr str)"

text \<open>The row that a wallet entity becomes (\<open>balance\<close>, \<open>currency\<close>).\<close>

definition row_of_Wallet :: "Wallet \<Rightarrow> error + Wallet" where
  "row_of_Wallet w =
     (case decimal_20_2 (balance w) of
        Inl e \<Rightarrow> Inl e
      | Inr b \<Rightarrow>
          (case varchar 3 (w_currency w) of
             Inl e \<Rightarrow> Inl e
           | Inr c \<Rightarrow> Inr (w\<lparr>balance := b, w_currency := c\<rparr>)))"

text \<open>
  The row that a transaction entity becomes (\<open>transactionId\<close>, \<open>amount\<close>, \<open>currency\<close>,
  \<open>convertedAmount\<close>).
\<close>

definition row_of_Transaction :: "Transaction \<Rightarrow> error + Transaction" where
  "row_of_Transaction t =
     (case varchar 255 (transactionId t) of
        Inl e \<Rightarrow> Inl e
      | Inr _ \<Rightarrow>
          (case decimal_20_2 (amount t) of
             Inl e \<Rightarrow> Inl e
           | Inr a \<Rightarrow>
               (case varchar 3 (currency t) of
                  Inl e \<Rightarrow> Inl e
                | Inr _ \<Rightarrow>
                    (case decimal_20_2 (convertedAmount t) of
                       Inl e \<Rightarrow> Inl e
                     | Inr c \<Rightarrow> Inr (t\<lparr>amount := a, convertedAmount := c\<rparr>)))))"

text \<open>
  Modelled from the spec: the initial value of a wallet's version column, which the store
  assigns (the spec leaves it implementation-defined; the unit test's wallet has 1).
\<close>

definition initial_version :: nat where
  "initial_version = 1"

text \<open>
  Modelled from the spec: the lookups of a wallet by its identifier and of a ledger entry
  by its \<open>transactionId\<close> (\<open>findOne\<close>); each returns the first matching row, if any.
\<close>

definition findWallet :: "store \<Rightarrow> uuid \<Rightarrow> Wallet option" where
  "findWallet s wid = find (\<lambda>w. w_id w = wid) (wallets s)"

definition findTransaction :: "store \<Rightarrow> string \<Rightarrow> Transaction option" where
  "findTransaction s tid = find (\<lambda>t. transactionId t = tid) (transactions s)"

text \<open>
  Modelled from the spec: the insert of a ledger entry, \<open>entityManager.save(Transaction, _)\<close>.
  The store enforces a global uniqueness constraint on \<open>transactionId\<close> (the entity
  declares the unique index): an insert whose \<open>transactionId\<close> is already stored fails
  with the store's constraint error; otherwise the row is appended. A value that a
  column rejects fails the insert before the index is consulted.
\<close>

definition save_Transaction :: "store \<Rightarrow> Transaction \<Rightarrow> error + store" where
  "save_Transaction s t =
     (case row_of_Transaction t of
        Inl e \<Rightarrow> Inl e
      | Inr row \<Rightarrow>
          (case findTransaction s (transactionId t) of
             Some _ \<Rightarrow>
               Inl (QueryFailedError ''duplicate key value violates unique constraint'')
           | None \<Rightarrow>
               Inr (s\<lparr>transactions := transactions s @ [row],
                       next_id := Suc (next_id s)\<rparr>)))"

text \<open>
  Modelled from the spec: the conditional wallet write, \<open>entityManager.save(Wallet, _)\<close>.
  The write succeeds only if the stored row still has the version that was loaded, and
  then increments the version; otherwise it fails with the version-mismatch error (the
  service's comment: optimistic locking will verify version). A row that is gone counts
  as a mismatch. The columns may reject the new values.
\<close>

definition save_Wallet :: "store \<Rightarrow> Wallet \<Rightarrow> error + store" where
  "save_Wallet s w =
     (case findWallet s (w_id w) of
        None \<Rightarrow> Inl OptimisticLockVersionMismatchError
      | Some row \<Rightarrow>
          if version row \<noteq> version w then Inl OptimisticLockVersionMismatchError
          else
            (case row_of_Wallet w of
               Inl e \<Rightarrow> Inl e
             | Inr new \<Rightarrow>
                 Inr (s\<lparr>wallets :=
                           map (\<lambda>x. if w_id x = w_id w
                                     then new\<lparr>version := Suc (version w),
                                             updatedAt := clock s\<rparr>
                                     else x) (wallets s),
                         clock := Suc (clock s)\<rparr>)))"

text \<open>
  Modelled from the spec: the insert of a new wallet, \<open>walletRepository.save\<close> of an
  entity without identifier.
\<close>

definition insert_Wallet :: "store \<Rightarrow> Wallet \<Rightarrow> error + store" where
  "insert_Wallet s w =
     (case row_of_Wallet w of
        Inl e \<Rightarrow> Inl e
      | Inr row \<Rightarrow>
          Inr (s\<lparr>wallets := wallets s @ [row], next_id := Suc (next_id s),
                  clock := Suc (clock s)\<rparr>))"

section \<open>WalletService\<close>

definition MAX_RETRIES :: nat where
  "MAX_RETRIES = 3"

definition mapToResponseDto :: "Transaction \<Rightarrow> TransactionResponseDto" where
  "mapToResponseDto t =
     \<lparr>r_id = t_id t, r_transactionId = transactionId t, r_walletId = walletId t,
      r_type = t_type t, r_amount = amount t, r_currency = currency t,
      r_convertedAmount = convertedAmount t, r_metadata = metadata t,
      r_createdAt = createdAt t\<rparr>"

text \<open>\<open>dto.currency || 'EGP'\<close>: an absent or empty currency falls back to EGP.\<close>

definition currency_or_EGP :: "string option \<Rightarrow> string" where
  "currency_or_EGP c = (case c of None \<Rightarrow> ''EGP'' | Some x \<Rightarrow> if x = [] then ''EGP'' else x)"

text \<open>
  One attempt, run inside \<open>dataSource.transaction\<close>: whatever is thrown inside rolls
  the attempt's own writes back. The argument \<open>others\<close> is what concurrent writers
  commit between this attempt's wallet load and its own writes; the sequential case is
  the identity. A throw before the writes leaves the store as it was loaded; a throw from
  one of the writes leaves only what the others committed.
\<close>

definition executeTransaction ::
  "(store \<Rightarrow> store) \<Rightarrow> store \<Rightarrow> CreateTransactionDto
     \<Rightarrow> (error + TransactionResponseDto) \<times> store" where
  "executeTransaction others s dto =
     (case findWallet s (dto_walletId dto) of
        None \<Rightarrow> (Inl (WalletNotFoundException (dto_walletId dto)), s)
      | Some wallet \<Rightarrow>
          (case toEGP (dto_amount dto) (currency_or_EGP (dto_currency dto)) of
             Inl e \<Rightarrow> (Inl e, s)
           | Inr convertedAmount' \<Rightarrow>
               (let transactionImpact =
                      (if dto_type dto = DEPOSIT then convertedAmount' else - convertedAmount');
                    newBalance = balance wallet + transactionImpact
                in if newBalance < 0
                   then (Inl (InsufficientFundsException (balance wallet) \<bar>transactionImpact\<bar>), s)
                   else
                     (let s1 = others s;
                          transaction =
                            \<lparr>t_id = next_id s1,
                             transactionId = dto_transactionId dto,
                             walletId = dto_walletId dto,
                             t_type = dto_type dto,
                             amount = dto_amount dto,
                             currency = currency_or_EGP (dto_currency dto),
                             convertedAmount = transactionImpact,
                             metadata = dto_metadata dto,
                             createdAt = clock s1\<rparr>
                      in case save_Transaction s1 transaction of
                           Inl e \<Rightarrow> (Inl e, s1)
                         | Inr s2 \<Rightarrow>
                             (case save_Wallet s2 (wallet\<lparr>balance := newBalance\<rparr>) of
                                Inl e \<Rightarrow> (Inl e, s1)
                              | Inr s3 \<Rightarrow> (Inr (mapToResponseDto transaction), s3))))))"

text \<open>
  The entity returned is the one that was built, with the values it was given; the row
  holds what the columns made of them.
\<close>

definition createWallet ::
  "store \<Rightarrow> rat option \<Rightarrow> string option \<Rightarrow> (error + Wallet) \<times> store" where
  "createWallet s initialBalance cur =
     (let wallet =
            \<lparr>w_id = next_id s,
             balance = (case initialBalance of None \<Rightarrow> 0 | Some b \<Rightarrow> b),
             w_currency = (case cur of None \<Rightarrow> ''EGP'' | Some c \<Rightarrow> c),
             version = initial_version,
             w_createdAt = clock s,
             updatedAt = clock s\<rparr>
      in case insert_Wallet s wallet of
           Inl e \<Rightarrow> (Inl e, s)
         | Inr s' \<Rightarrow> (Inr wallet, s'))"

text \<open>
  What the other callers of the service do to the store while one call is running. Every
  commit of another caller has the effect of one attempt run without interruption at the
  moment of its commit (its conditional wallet write succeeded, so the wallet had not
  changed since it was loaded), and a failed attempt has no effect.
\<close>

datatype op = OtherTransaction CreateTransactionDto | OtherWallet "rat option" "string option"

fun env_step :: "store \<Rightarrow> op \<Rightarrow> store" where
  "env_step s (OtherTransaction d) = snd (executeTransaction (\<lambda>x. x) s d)"
| "env_step s (OtherWallet b c) = snd (createWallet s b c)"

definition run_ops :: "op list \<Rightarrow> store \<Rightarrow> store" where
  "run_ops ops s = foldl env_step s ops"

text \<open>
  A schedule lists, for one call of \<open>createTransaction\<close>, the commits of the other
  callers: window 0 lies between the idempotency lookup and the first attempt, window
  \<open>k\<close> between the wallet load of attempt \<open>k\<close> and its writes (and, when the attempt
  fails, up to the next attempt).
\<close>

type_synonym schedule = "op list list"

definition window :: "schedule \<Rightarrow> nat \<Rightarrow> op list" where
  "window sched k = (if k < length sched then sched ! k else [])"

text \<open>
  The trace records the calls of \<open>executeTransaction\<close> (with what the attempt threw, if
  anything) and of \<open>sleep\<close> (with the delay in milliseconds), in order.
\<close>

datatype event = Attempt nat "error option" | Sleep nat

type_synonym outcome = "(error + TransactionResponseDto) \<times> store \<times> event list"

text \<open>The \<open>for\<close> loop, over the attempt numbers it runs through.\<close>

fun retry_loop ::
  "nat list \<Rightarrow> schedule \<Rightarrow> store \<Rightarrow> CreateTransactionDto \<Rightarrow> event list \<Rightarrow> outcome" where
  "retry_loop [] sched s dto tr =
     (Inl (Error ''Transaction failed after maximum retries''), s, tr)"
| "retry_loop (attempt # rest) sched s dto tr =
     (case executeTransaction (run_ops (window sched attempt)) s dto of
        (Inr r, s') \<Rightarrow> (Inr r, s', tr @ [Attempt attempt None])
      | (Inl e, s') \<Rightarrow>
          if e = OptimisticLockVersionMismatchError \<and> attempt < MAX_RETRIES
          then retry_loop rest sched s' dto
                 (tr @ [Attempt attempt (Some e), Sleep (2 ^ attempt * 100)])
          else (Inl e, s', tr @ [Attempt attempt (Some e)]))"

definition createTransaction :: "schedule \<Rightarrow> store \<Rightarrow> CreateTransactionDto \<Rightarrow> outcome" where
  "createTransaction sched s dto =
     (case findTransaction s (dto_transactionId dto) of
        Some existingTransaction \<Rightarrow> (Inr (mapToResponseDto existingTransaction), s, [])
      | None \<Rightarrow>
          retry_loop [1..<Suc MAX_RETRIES] sched (run_ops (window sched 0) s) dto [])"

definition validateBalanceConsistency :: "store \<Rightarrow> uuid \<Rightarrow> error + bool" where
  "validateBalanceConsistency s wid =
     (case findWallet s wid of
        None \<Rightarrow> Inl (WalletNotFoundException wid)
      | Some wallet \<Rightarrow>
          (let calculatedBalance =
                 sum_list (map convertedAmount (filter (\<lambda>t. walletId t = wid) (transactions s)))
           in Inr (\<bar>balance wallet - calculatedBalance\<bar> < 1 / 100)))"

section \<open>Test fixtures\<close>

text \<open>
  The integration tests start from a store holding one wallet with 1000 EGP; requests are
  addressed to it. The wallet gets identifier 0, the first ledger entry identifier 1.
\<close>

definition fixture_store :: store where
  "fixture_store = snd (createWallet empty_store (Some 1000) (Some ''EGP''))"

definition request :: "string \<Rightarrow> TransactionType \<Rightarrow> rat \<Rightarrow> string \<Rightarrow> CreateTransactionDto" where
  "request tid k a c =
     \<lparr>dto_transactionId = tid, dto_walletId = 0, dto_type = k, dto_amount = a,
      dto_currency = Some c, dto_metadata = None\<rparr>"

definition deposited_entry :: Transaction where
  "deposited_entry =
     \<lparr>t_id = 1, transactionId = ''idempotent-test-1'', walletId = 0, t_type = DEPOSIT,
      amount = 100, currency = ''EGP'', convertedAmount = 100, metadata = None,
      createdAt = 1\<rparr>"

definition deposited_store :: store where
  "deposited_store =
     fst (snd (createTransaction [] fixture_store
                 (request ''idempotent-test-1'' DEPOSIT 100 ''EGP'')))"




definition thrown :: "error + 'a \<Rightarrow> error option" where
  "thrown res = (case res of Inl e \<Rightarrow> Some e | Inr _ \<Rightarrow> None)"

text \<open>
  Duplicate race: while the attempt of a request is between its wallet load and its
  insert, another caller commits the same request.
\<close>

definition duplicate_request :: CreateTransactionDto where
  "duplicate_request = request ''concurrent-idempotent-test'' DEPOSIT 200 ''EGP''"

definition duplicate_schedule :: schedule where
  "duplicate_schedule = [[], [OtherTransaction duplicate_request]]"

definition winning_entry :: Transaction where
  "winning_entry =
     \<lparr>t_id = 1, transactionId = ''concurrent-idempotent-test'', walletId = 0,
      t_type = DEPOSIT, amount = 200, currency = ''EGP'', convertedAmount = 200,
      metadata = None, createdAt = 1\<rparr>"

text \<open>
  A history of the service: the calls that reach it, one after the other, each
  \<open>createTransaction\<close> call with the schedule of what the other callers commit while it
  runs. \<open>observed\<close> lists the store before the first call and after every call.
\<close>

datatype call =
    CreateTransaction schedule CreateTransactionDto
  | CreateWallet "rat option" "string option"

fun serve :: "store \<Rightarrow> call \<Rightarrow> store" where
  "serve s (CreateTransaction sched dto) = fst (snd (createTransaction sched s dto))"
| "serve s (CreateWallet b c) = snd (createWallet s b c)"

fun observed :: "store \<Rightarrow> call list \<Rightarrow> store list" where
  "observed s [] = [s]"
| "observed s (c # cs) = s # observed (serve s c) cs"

text \<open>Wallets are created with a non-negative initial balance (an absent one is 0).\<close>

definition funded :: "rat option \<Rightarrow> bool" where
  "funded b = (case b of None \<Rightarrow> True | Some x \<Rightarrow> 0 \<le> x)"

fun op_funded :: "op \<Rightarrow> bool" where
  "op_funded (OtherWallet b c) = funded b"
| "op_funded (OtherTransaction d) = True"

fun call_funded :: "call \<Rightarrow> bool" where
  "call_funded (CreateWallet b c) = funded b"
| "call_funded (CreateTransaction sched dto) = list_all (list_all op_funded) sched"

definition nonneg :: "store \<Rightarrow> bool" where
  "nonneg s = list_all (\<lambda>w. 0 \<le> balance w) (wallets s)"

text \<open>
  The overdraft test: a wallet with 100 EGP and withdrawals of 15 EGP each; the first of
  them runs while another caller commits a withdrawal of its own.
\<close>

definition overdraft_calls :: "call list" where
  "overdraft_calls =
     [CreateWallet (Some 100) (Some ''EGP''),
      CreateTransaction [[], [OtherTransaction (request ''concurrent-withdrawal-9'' WITHDRAWAL 15 ''EGP'')]]
        (request ''concurrent-withdrawal-0'' WITHDRAWAL 15 ''EGP''),
      CreateTransaction [] (request ''concurrent-withdrawal-1'' WITHDRAWAL 15 ''EGP''),
      CreateTransaction [] (request ''concurrent-withdrawal-2'' WITHDRAWAL 15 ''EGP''),
      CreateTransaction [] (request ''concurrent-withdrawal-3'' WITHDRAWAL 15 ''EGP''),
      CreateTransaction [] (request ''concurrent-withdrawal-4'' WITHDRAWAL 15 ''EGP''),
      CreateTransaction [] (request ''concurrent-withdrawal-5'' WITHDRAWAL 15 ''EGP''),
      CreateTransaction [] (request ''concurrent-withdrawal-6'' WITHDRAWAL 15 ''EGP'')]"

text \<open>
  The balance-consistency test: a wallet created with 1000 EGP, then a deposit of 500, a
  withdrawal of 200 and a deposit of 100.
\<close>

definition consistency_calls :: "call list" where
  "consistency_calls =
     [CreateWallet (Some 1000) (Some ''EGP''),
      CreateTransaction [] (request ''consistency-1'' DEPOSIT 500 ''EGP''),
      CreateTransaction [] (request ''consistency-2'' WITHDRAWAL 200 ''EGP''),
      CreateTransaction [] (request ''consistency-3'' DEPOSIT 100 ''EGP'')]"

definition consistency_store :: store where
  "consistency_store = last (observed empty_store consistency_calls)"

section \<open>Basic facts about lookups and saves\<close>

lemma find_append_Some: "find P xs = Some x \<Longrightarrow> find P (xs @ ys) = Some x"
  by (induction xs) (auto split: if_splits)





lemma decimal_20_2_nonneg:
  assumes "decimal_20_2 x = Inr b" and "0 \<le> x"
  shows "0 \<le> b"
proof -
  from assms have b: "b = of_int \<lfloor>x * 100 + 1 / 2\<rfloor> / 100"
    by (simp add: decimal_20_2_def Let_def split: if_splits)
  from assms(2) have "0 \<le> \<lfloor>x * 100 + 1 / 2\<rfloor>" by simp
  then show ?thesis unfolding b by simp
qed

lemma decimal_20_2_Inl: "decimal_20_2 x = Inl e \<Longrightarrow> \<exists>m. e = QueryFailedError m"
  by (auto simp: decimal_20_2_def Let_def split: if_splits)

lemma varchar_Inr: "varchar n str = Inr c \<Longrightarrow> c = str"
  by (auto simp: varchar_def split: if_splits)

lemma varchar_Inl: "varchar n str = Inl e \<Longrightarrow> \<exists>m. e = QueryFailedError m"
  by (auto simp: varchar_def split: if_splits)

lemma row_of_Wallet_Inr:
  "row_of_Wallet w = Inr new \<Longrightarrow>
   \<exists>b. decimal_20_2 (balance w) = Inr b \<and> new = w\<lparr>balance := b\<rparr>"
  by (auto simp: row_of_Wallet_def split: sum.splits dest!: varchar_Inr)

lemma row_of_Wallet_Inl: "row_of_Wallet w = Inl e \<Longrightarrow> \<exists>m. e = QueryFailedError m"
  by (auto simp: row_of_Wallet_def split: sum.splits dest: decimal_20_2_Inl varchar_Inl)



lemma save_Transaction_Inr:
  "save_Transaction s t = Inr s' \<Longrightarrow>
   \<exists>row. row_of_Transaction t = Inr row \<and>
     s' = s\<lparr>transactions := transactions s @ [row], next_id := Suc (next_id s)\<rparr> \<and>
     findTransaction s (transactionId t) = None"
  by (auto simp: save_Transaction_def split: option.splits sum.splits)


lemma save_Wallet_Inr:
  "save_Wallet s w = Inr s' \<Longrightarrow>
   \<exists>b. decimal_20_2 (balance w) = Inr b \<and>
     transactions s' = transactions s \<and> next_id s' = next_id s \<and>
     wallets s' = map (\<lambda>x. if w_id x = w_id w
                          then w\<lparr>balance := b, version := Suc (version w),
                                 updatedAt := clock s\<rparr>
                          else x) (wallets s)"
  by (auto simp: save_Wallet_def split: option.splits if_splits sum.splits
           dest!: row_of_Wallet_Inr)

lemma save_Wallet_Inl:
  "save_Wallet s w = Inl e \<Longrightarrow>
   e = OptimisticLockVersionMismatchError \<or> (\<exists>m. e = QueryFailedError m)"
  by (auto simp: save_Wallet_def split: option.splits if_splits sum.splits
           dest: row_of_Wallet_Inl)



lemma attempts_eq: "[1..<Suc MAX_RETRIES] = [1, 2, 3]"
  by (simp add: MAX_RETRIES_def upt_rec)

lemma run_ops_Nil: "run_ops [] = (\<lambda>x. x)"
  by (rule ext) (simp add: run_ops_def)

lemma window_Nil: "window [] k = []"
  by (simp add: window_def)

section \<open>One attempt\<close>


lemma executeTransaction_Inl:
  assumes "executeTransaction others s dto = (Inl e, s')"
  shows "s' = s \<or> s' = others s"
  using assms
  by (auto simp: executeTransaction_def Let_def split: option.splits sum.splits if_splits)



section \<open>Idempotency\<close>




text \<open>
  C10. A request whose \<open>transactionId\<close> is already stored gets the stored entry back,
  field by field (identifier, \<open>transactionId\<close>, wallet, type, amount, currency,
  converted amount, metadata, creation time), whatever its own wallet, type, amount,
  currency and metadata are: the lookup compares the \<open>transactionId\<close> only, nothing of
  the request is compared with the entry, no error is raised, no attempt is made and the
  store is left as it was.
\<close>

theorem idempotent_hit_ignores_payload:
  "findTransaction s tid = Some t \<Longrightarrow>
   createTransaction sched s
     \<lparr>dto_transactionId = tid, dto_walletId = wid, dto_type = k, dto_amount = a,
      dto_currency = c, dto_metadata = m\<rparr>
   = (Inr \<lparr>r_id = t_id t, r_transactionId = transactionId t, r_walletId = walletId t,
           r_type = t_type t, r_amount = amount t, r_currency = currency t,
           r_convertedAmount = convertedAmount t, r_metadata = metadata t,
           r_createdAt = createdAt t\<rparr>, s, [])"
  by (simp add: createTransaction_def mapToResponseDto_def)

theorem idempotent_hit_ignores_payload_witness:
  "findTransaction deposited_store ''idempotent-test-1'' = Some deposited_entry \<and>
   createTransaction [] deposited_store
     \<lparr>dto_transactionId = ''idempotent-test-1'', dto_walletId = 7, dto_type = WITHDRAWAL,
      dto_amount = 999, dto_currency = Some ''USD'', dto_metadata = None\<rparr>
   = (Inr \<lparr>r_id = 1, r_transactionId = ''idempotent-test-1'', r_walletId = 0,
           r_type = DEPOSIT, r_amount = 100, r_currency = ''EGP'',
           r_convertedAmount = 100, r_metadata = None, r_createdAt = 1\<rparr>,
      deposited_store, [])"
proof -
  have hit: "findTransaction deposited_store ''idempotent-test-1'' = Some deposited_entry"
    by code_simp
  from idempotent_hit_ignores_payload [OF hit, of "[]" 7 WITHDRAWAL 999 "Some ''USD''" None]
  have "createTransaction [] deposited_store
     \<lparr>dto_transactionId = ''idempotent-test-1'', dto_walletId = 7, dto_type = WITHDRAWAL,
      dto_amount = 999, dto_currency = Some ''USD'', dto_metadata = None\<rparr>
   = (Inr \<lparr>r_id = 1, r_transactionId = ''idempotent-test-1'', r_walletId = 0,
           r_type = DEPOSIT, r_amount = 100, r_currency = ''EGP'',
           r_convertedAmount = 100, r_metadata = None, r_createdAt = 1\<rparr>,
      deposited_store, [])"
    by (simp add: deposited_entry_def)
  with hit show ?thesis by blast
qed





section \<open>Insufficient funds\<close>

lemma executeTransaction_insufficient:
  assumes w: "findWallet s (dto_walletId dto) = Some w"
      and c: "toEGP (dto_amount dto) (currency_or_EGP (dto_currency dto)) = Inr c"
      and impact: "impact = (if dto_type dto = DEPOSIT then c else - c)"
      and neg: "balance w + impact < 0"
  shows "executeTransaction others s dto =
           (Inl (INSUFFICIENT_FUNDS (balance w) \<bar>impact\<bar> (\<bar>impact\<bar> - balance w)), s)"
  using assms
  by (simp add: executeTransaction_def Let_def InsufficientFundsException_def)

text \<open>
  C4. When the wallet loaded by an attempt has a balance that the signed converted amount
  would take below zero, the attempt throws \<open>INSUFFICIENT_FUNDS\<close> with the current
  balance, the magnitude of the requested amount and the shortfall (magnitude minus
  balance), and leaves the store as it was loaded, whatever the other writers would have
  done next. The retry loop rethrows it at once, at whichever attempt it occurs: no sleep,
  no further attempt. So a call whose lookup misses fails on its first attempt, and the
  store is the one the attempt started from: no entry inserted, balance and version as
  they were.
\<close>

theorem insufficient_funds_not_retried:
  assumes w: "findWallet s (dto_walletId dto) = Some w"
      and c: "toEGP (dto_amount dto) (currency_or_EGP (dto_currency dto)) = Inr c"
      and impact: "impact = (if dto_type dto = DEPOSIT then c else - c)"
      and neg: "balance w + impact < 0"
      and e: "e = INSUFFICIENT_FUNDS (balance w) \<bar>impact\<bar> (\<bar>impact\<bar> - balance w)"
  shows "executeTransaction others s dto = (Inl e, s) \<and>
         retry_loop (attempt # rest) sched s dto tr = (Inl e, s, tr @ [Attempt attempt (Some e)]) \<and>
         (findTransaction s0 (dto_transactionId dto) = None \<and> run_ops (window sched 0) s0 = s \<longrightarrow>
            createTransaction sched s0 dto = (Inl e, s, [Attempt 1 (Some e)]))"
proof -
  have ex: "\<And>others. executeTransaction others s dto = (Inl e, s)"
    unfolding e by (rule executeTransaction_insufficient [OF w c impact neg])
  have loop: "\<And>attempt rest tr.
      retry_loop (attempt # rest) sched s dto tr = (Inl e, s, tr @ [Attempt attempt (Some e)])"
    by (simp add: ex e)
  have "createTransaction sched s0 dto = (Inl e, s, [Attempt 1 (Some e)])"
    if "findTransaction s0 (dto_transactionId dto) = None" "run_ops (window sched 0) s0 = s"
    using that loop [of 1 "[2, 3]" "[]"]
    unfolding createTransaction_def attempts_eq by simp
  with ex loop show ?thesis by blast
qed

theorem insufficient_funds_not_retried_witness:
  "findWallet fixture_store 0 =
     Some \<lparr>w_id = 0, balance = 1000, w_currency = ''EGP'', version = 1, w_createdAt = 0,
           updatedAt = 0\<rparr> \<and>
   toEGP 2000 ''EGP'' = Inr 2000 \<and>
   (1000::rat) + (- 2000) < 0 \<and>
   findTransaction fixture_store ''unique-tx-overdraw'' = None \<and>
   run_ops (window [] 0) fixture_store = fixture_store \<and>
   createTransaction [] fixture_store (request ''unique-tx-overdraw'' WITHDRAWAL 2000 ''EGP'')
     = (Inl (INSUFFICIENT_FUNDS 1000 2000 1000), fixture_store,
        [Attempt 1 (Some (INSUFFICIENT_FUNDS 1000 2000 1000))])"
proof -
  let ?dto = "request ''unique-tx-overdraw'' WITHDRAWAL 2000 ''EGP''"
  let ?w = "\<lparr>w_id = 0, balance = 1000, w_currency = ''EGP'', version = 1, w_createdAt = 0,
           updatedAt = 0\<rparr>"
  have w: "findWallet fixture_store (dto_walletId ?dto) = Some ?w" by code_simp
  have c: "toEGP (dto_amount ?dto) (currency_or_EGP (dto_currency ?dto)) = Inr 2000"
    by code_simp
  have impact: "(- 2000 :: rat) = (if dto_type ?dto = DEPOSIT then 2000 else - 2000)"
    by (simp add: request_def)
  have neg: "balance ?w + (- 2000) < 0" by simp
  have e: "INSUFFICIENT_FUNDS 1000 2000 1000 =
           INSUFFICIENT_FUNDS (balance ?w) \<bar>- 2000\<bar> (\<bar>- 2000\<bar> - balance ?w)"
    by simp
  have miss: "findTransaction fixture_store (dto_transactionId ?dto) = None" by code_simp
  have run: "run_ops (window [] 0) fixture_store = fixture_store"
    by (simp add: window_Nil run_ops_Nil)
  have w': "findWallet fixture_store 0 = Some ?w" by code_simp
  have c': "toEGP 2000 ''EGP'' = Inr 2000" by code_simp
  have miss': "findTransaction fixture_store ''unique-tx-overdraw'' = None" by code_simp
  from insufficient_funds_not_retried [OF w c impact neg e, of id 1 "[]" "[]" "[]" fixture_store]
    miss run
  have "createTransaction [] fixture_store ?dto
     = (Inl (INSUFFICIENT_FUNDS 1000 2000 1000), fixture_store,
        [Attempt 1 (Some (INSUFFICIENT_FUNDS 1000 2000 1000))])"
    by blast
  with w' c' miss' run show ?thesis by simp
qed

section \<open>The duplicate race\<close>

text \<open>
  C7. The claim asks that a writer who loses the uniqueness race re-reads and returns the
  winning entry. When the lookup misses and another caller commits the same
  \<open>transactionId\<close> before the insert, the store's constraint error is rethrown to the
  caller, although the winning entry is in the store.
\<close>

theorem duplicate_insert_surfaces_error:
  "findTransaction fixture_store (dto_transactionId duplicate_request) = None \<and>
   fst (createTransaction duplicate_schedule fixture_store duplicate_request)
     = Inl (QueryFailedError ''duplicate key value violates unique constraint'') \<and>
   findTransaction
     (fst (snd (createTransaction duplicate_schedule fixture_store duplicate_request)))
     (dto_transactionId duplicate_request) = Some winning_entry"
  by code_simp

section \<open>Balances never go negative\<close>

lemma nonneg_save_Wallet:
  assumes "save_Wallet s w = Inr s'" and "nonneg s" and "0 \<le> balance w"
  shows "nonneg s'"
proof -
  from save_Wallet_Inr [OF assms(1)] obtain b where
    b: "decimal_20_2 (balance w) = Inr b"
    and ws: "wallets s' = map (\<lambda>x. if w_id x = w_id w
                          then w\<lparr>balance := b, version := Suc (version w),
                                 updatedAt := clock s\<rparr>
                          else x) (wallets s)"
    by blast
  from b assms(3) have "0 \<le> b" by (rule decimal_20_2_nonneg)
  with assms(2) ws show ?thesis by (auto simp: nonneg_def list_all_iff)
qed

lemma nonneg_executeTransaction:
  assumes "nonneg s" and "nonneg (others s)"
  shows "nonneg (snd (executeTransaction others s dto))"
proof -
  have ins: "\<And>x ts n. nonneg x \<Longrightarrow> nonneg (x\<lparr>transactions := ts, next_id := n\<rparr>)"
    by (simp add: nonneg_def)
  show ?thesis
    using assms
    by (auto simp: executeTransaction_def Let_def ins
             split: option.splits sum.splits
             dest!: save_Transaction_Inr
             intro: nonneg_save_Wallet)
qed

lemma nonneg_createWallet:
  assumes "funded b" and "nonneg s"
  shows "nonneg (snd (createWallet s b c))"
proof -
  let ?w = "\<lparr>w_id = next_id s, balance = (case b of None \<Rightarrow> 0 | Some x \<Rightarrow> x),
             w_currency = (case c of None \<Rightarrow> ''EGP'' | Some x \<Rightarrow> x),
             version = initial_version, w_createdAt = clock s, updatedAt = clock s\<rparr>"
  have pos: "0 \<le> balance ?w" using assms(1) by (simp add: funded_def split: option.splits)
  show ?thesis
  proof (cases "row_of_Wallet ?w")
    case (Inl e)
    with assms(2) show ?thesis by (simp add: createWallet_def insert_Wallet_def Let_def)
  next
    case (Inr row)
    from row_of_Wallet_Inr [OF Inr] obtain x where
      "decimal_20_2 (balance ?w) = Inr x" "row = ?w\<lparr>balance := x\<rparr>"
      by blast
    with pos have "0 \<le> balance row" by (auto dest: decimal_20_2_nonneg)
    with Inr assms(2) show ?thesis
      by (simp add: createWallet_def insert_Wallet_def Let_def nonneg_def)
  qed
qed

lemma nonneg_env_step: "op_funded x \<Longrightarrow> nonneg s \<Longrightarrow> nonneg (env_step s x)"
  by (cases x) (simp_all add: nonneg_executeTransaction nonneg_createWallet)

lemma nonneg_run_ops: "list_all op_funded ops \<Longrightarrow> nonneg s \<Longrightarrow> nonneg (run_ops ops s)"
  unfolding run_ops_def
  by (induction ops arbitrary: s) (simp_all add: nonneg_env_step)

lemma window_funded:
  "list_all (list_all op_funded) sched \<Longrightarrow> list_all op_funded (window sched k)"
  by (simp add: window_def list_all_length)

lemma nonneg_retry_loop:
  assumes "list_all (list_all op_funded) sched"
  shows "nonneg s \<Longrightarrow> nonneg (fst (snd (retry_loop as sched s dto tr)))"
proof (induction as arbitrary: s tr)
  case Nil
  then show ?case by simp
next
  case (Cons a as)
  have "nonneg (run_ops (window sched a) s)"
    using assms Cons.prems by (simp add: nonneg_run_ops window_funded)
  with Cons.prems
  have n: "nonneg (snd (executeTransaction (run_ops (window sched a)) s dto))"
    by (rule nonneg_executeTransaction)
  obtain res s0 where ex: "executeTransaction (run_ops (window sched a)) s dto = (res, s0)"
    by (cases "executeTransaction (run_ops (window sched a)) s dto")
  with n have "nonneg s0" by simp
  with ex Cons.IH show ?case by (cases res) simp_all
qed

lemma nonneg_createTransaction:
  assumes "list_all (list_all op_funded) sched" and "nonneg s"
  shows "nonneg (fst (snd (createTransaction sched s dto)))"
  using assms
  by (auto simp: createTransaction_def nonneg_retry_loop nonneg_run_ops window_funded
           split: option.splits)

lemma nonneg_serve: "call_funded c \<Longrightarrow> nonneg s \<Longrightarrow> nonneg (serve s c)"
  by (cases c) (simp_all add: nonneg_createTransaction nonneg_createWallet)

lemma observed_nonempty: "observed s cs \<noteq> []"
  by (cases cs) simp_all

lemma nonneg_observed:
  "list_all call_funded cs \<Longrightarrow> nonneg s \<Longrightarrow> x \<in> set (observed s cs) \<Longrightarrow> nonneg x"
proof (induction cs arbitrary: s)
  case Nil
  then show ?case by simp
next
  case (Cons c cs)
  from Cons.prems have "nonneg (serve s c)" by (simp add: nonneg_serve)
  with Cons.IH [of "serve s c"] Cons.prems show ?case by auto
qed

lemma executeTransaction_commit_nonneg:
  assumes "executeTransaction others s dto = (Inr r, s')"
      and "findWallet s (dto_walletId dto) = Some w"
  shows "0 \<le> balance w + r_convertedAmount r"
  using assms
  by (auto simp: executeTransaction_def Let_def mapToResponseDto_def
           split: sum.splits if_splits)

text \<open>
  C2. In every history of calls in which wallets are created with a non-negative initial
  balance (by the calls of the history and by the other callers scheduled during them),
  every wallet of every observed store has a balance of at least zero. An attempt commits
  only when the loaded balance plus the signed converted amount is at least zero; when
  that sum is negative the attempt throws and the store is as it was loaded.
\<close>

theorem balance_never_negative:
  assumes "list_all call_funded cs"
  shows "(s \<in> set (observed empty_store cs) \<and> w \<in> set (wallets s) \<longrightarrow> 0 \<le> balance w) \<and>
         (executeTransaction others s0 dto = (Inr r, s1) \<and>
          findWallet s0 (dto_walletId dto) = Some w0 \<longrightarrow> 0 \<le> balance w0 + r_convertedAmount r) \<and>
         (findWallet s2 (dto_walletId dto2) = Some w2 \<and>
          toEGP (dto_amount dto2) (currency_or_EGP (dto_currency dto2)) = Inr q \<and>
          balance w2 + (if dto_type dto2 = DEPOSIT then q else - q) < 0 \<longrightarrow>
            thrown (fst (executeTransaction others2 s2 dto2)) \<noteq> None \<and>
            snd (executeTransaction others2 s2 dto2) = s2)"
proof (intro conjI impI)
  assume a: "s \<in> set (observed empty_store cs) \<and> w \<in> set (wallets s)"
  have "nonneg empty_store" by (simp add: nonneg_def empty_store_def)
  with assms a have "nonneg s" by (auto intro: nonneg_observed)
  with a show "0 \<le> balance w" by (simp add: nonneg_def list_all_iff)
next
  assume "executeTransaction others s0 dto = (Inr r, s1) \<and>
          findWallet s0 (dto_walletId dto) = Some w0"
  then show "0 \<le> balance w0 + r_convertedAmount r"
    by (auto intro: executeTransaction_commit_nonneg)
next
  assume a: "findWallet s2 (dto_walletId dto2) = Some w2 \<and>
          toEGP (dto_amount dto2) (currency_or_EGP (dto_currency dto2)) = Inr q \<and>
          balance w2 + (if dto_type dto2 = DEPOSIT then q else - q) < 0"
  then have ex: "executeTransaction others2 s2 dto2 =
      (Inl (INSUFFICIENT_FUNDS (balance w2) \<bar>if dto_type dto2 = DEPOSIT then q else - q\<bar>
              (\<bar>if dto_type dto2 = DEPOSIT then q else - q\<bar> - balance w2)), s2)"
    by (intro executeTransaction_insufficient) simp_all
  from ex show "thrown (fst (executeTransaction others2 s2 dto2)) \<noteq> None"
    by (simp add: thrown_def)
  from ex show "snd (executeTransaction others2 s2 dto2) = s2"
    by simp
qed

theorem balance_never_negative_witness:
  "list_all call_funded overdraft_calls \<and>
   last (observed empty_store overdraft_calls) \<in> set (observed empty_store overdraft_calls) \<and>
   \<lparr>w_id = 0, balance = 10, w_currency = ''EGP'', version = 7, w_createdAt = 0,
     updatedAt = 6\<rparr> \<in> set (wallets (last (observed empty_store overdraft_calls))) \<and>
   (0::rat) \<le> 10 \<and>
   executeTransaction (\<lambda>x. x) fixture_store (request ''idempotent-test-1'' DEPOSIT 100 ''EGP'')
     = (Inr (mapToResponseDto deposited_entry), deposited_store) \<and>
   findWallet fixture_store 0 =
     Some \<lparr>w_id = 0, balance = 1000, w_currency = ''EGP'', version = 1, w_createdAt = 0,
           updatedAt = 0\<rparr> \<and>
   (0::rat) \<le> 1000 + 100 \<and>
   toEGP 2000 ''EGP'' = Inr 2000 \<and>
   (1000::rat) + (- 2000) < 0 \<and>
   thrown (fst (executeTransaction (\<lambda>x. x) fixture_store
                  (request ''unique-tx-overdraw'' WITHDRAWAL 2000 ''EGP''))) \<noteq> None \<and>
   snd (executeTransaction (\<lambda>x. x) fixture_store
          (request ''unique-tx-overdraw'' WITHDRAWAL 2000 ''EGP'')) = fixture_store"
proof -
  let ?s = "last (observed empty_store overdraft_calls)"
  let ?w = "\<lparr>w_id = 0, balance = 10, w_currency = ''EGP'', version = 7, w_createdAt = 0,
             updatedAt = 6\<rparr>"
  let ?dto = "request ''idempotent-test-1'' DEPOSIT 100 ''EGP''"
  let ?over = "request ''unique-tx-overdraw'' WITHDRAWAL 2000 ''EGP''"
  let ?loaded = "\<lparr>w_id = 0, balance = 1000, w_currency = ''EGP'', version = 1,
                  w_createdAt = 0, updatedAt = 0\<rparr>"
  have funded: "list_all call_funded overdraft_calls" by code_simp
  have "observed empty_store overdraft_calls \<noteq> []"
    by (rule observed_nonempty)
  then have obs: "?s \<in> set (observed empty_store overdraft_calls)" by simp
  have "wallets ?s = [?w]" by code_simp
  then have mem: "?w \<in> set (wallets ?s)" by simp
  have ex: "executeTransaction (\<lambda>x. x) fixture_store ?dto
              = (Inr (mapToResponseDto deposited_entry), deposited_store)"
    by code_simp
  have l1: "findWallet fixture_store (dto_walletId ?dto) = Some ?loaded" by code_simp
  have l2: "findWallet fixture_store (dto_walletId ?over) = Some ?loaded" by code_simp
  have l3: "findWallet fixture_store 0 = Some ?loaded" by code_simp
  have c: "toEGP (dto_amount ?over) (currency_or_EGP (dto_currency ?over)) = Inr 2000"
    by code_simp
  have c': "toEGP 2000 ''EGP'' = Inr 2000" by code_simp
  have neg: "balance ?loaded + (if dto_type ?over = DEPOSIT then 2000 else - 2000) < 0"
    by (simp add: request_def)
  from balance_never_negative [OF funded, of ?s ?w "\<lambda>x. x" fixture_store ?dto
      "mapToResponseDto deposited_entry" deposited_store ?loaded fixture_store ?over
      ?loaded 2000 "\<lambda>x. x"] obs mem ex l1 l2 c neg
  have "0 \<le> balance ?w"
    and "0 \<le> balance ?loaded + r_convertedAmount (mapToResponseDto deposited_entry)"
    and "thrown (fst (executeTransaction (\<lambda>x. x) fixture_store ?over)) \<noteq> None"
    and "snd (executeTransaction (\<lambda>x. x) fixture_store ?over) = fixture_store"
    by blast+
  moreover from calculation have "(0::rat) \<le> 10" and "(0::rat) \<le> 1000 + 100"
    by (simp_all add: mapToResponseDto_def deposited_entry_def)
  moreover have "(1000::rat) + (- 2000) < 0" by simp
  ultimately show ?thesis using funded obs mem ex l3 c' by blast
qed

section \<open>Currency conversion\<close>

text \<open>
  C8. The claim asks for half-up rounding to two decimals of
  \<open>amount * rate[source] / rate[reference]\<close> for every positive amount. \<open>convert\<close>
  rounds with \<open>Math.round(x * 100) / 100\<close>, where \<open>x * 100\<close> is a binary64 product:
  for 2.65 AED that product is just below 3524.5, and the result is 35.24. Half-up
  rounding gives 35.25, for the decimal product 35.245 and for the exact product of the
  two doubles alike. Where the products are exact the claim's figures hold: 10 USD
  convert to exactly 490.
\<close>

theorem conversion_misses_half_up:
  "exchangeRates ''AED'' = Some (133 / 10) \<and>
   toEGP (265 / 100) ''AED'' = Inr (3524 / 100) \<and>
   fl64 (fl64 (fl64 (fl64 (265 / 100) * fl64 (133 / 10)) / fl64 1) * 100) < 3524 + 1 / 2 \<and>
   of_int (Math_round (265 / 100 * (133 / 10) / 1 * 100)) / 100 = (3525 / 100 :: rat) \<and>
   of_int (Math_round (fl64 (265 / 100) * fl64 (133 / 10) / fl64 1 * 100)) / 100
     = (3525 / 100 :: rat) \<and>
   toEGP 10 ''USD'' = Inr 490"
  by code_simp

section \<open>Reconciliation\<close>

text \<open>
  C3. The claim asks that the consistency check returns true after any sequence of
  applied transactions. \<open>createWallet\<close> stores the initial balance without a ledger
  entry, so for a wallet created with 1000 EGP the stored balance exceeds the sum of the
  entries by 1000 and the check returns false; the integration test that runs these very
  calls expects true.
\<close>

theorem consistency_check_fails_after_funded_creation:
  "map balance (wallets consistency_store) = [1400] \<and>
   map walletId (transactions consistency_store) = [0, 0, 0] \<and>
   map convertedAmount (transactions consistency_store) = [500, - 200, 100] \<and>
   validateBalanceConsistency consistency_store 0 = Inr False"
  by code_simp

section \<open>Wallet creation\<close>

text \<open>
  C9. The claim asks that a negative initial balance is rejected. \<open>createWallet\<close>
  builds the wallet and saves it; nothing checks the sign, and the columns accept a
  negative balance: the wallet is returned and stored with balance -5, although the
  repository's documents say that negative balances are prevented and the transaction
  path guards against them.
\<close>

theorem createWallet_accepts_negative_balance:
  "createWallet empty_store (Some (- 5)) (Some ''EGP'') =
     (Inr \<lparr>w_id = 0, balance = - 5, w_currency = ''EGP'', version = 1, w_createdAt = 0,
           updatedAt = 0\<rparr>,
      \<lparr>wallets = [\<lparr>w_id = 0, balance = - 5, w_currency = ''EGP'', version = 1,
                    w_createdAt = 0, updatedAt = 0\<rparr>],
       transactions = [], next_id = 1, clock = 1\<rparr>)"
  by code_simp

end
